theory Spec2Isabelle
  imports Complex_Main "HOL-Library.AList" "HOL-Library.Sublist"
begin

unbundle bit_operations_syntax

section \<open>Python values, exceptions and runs\<close>

text \<open>
  \<^verbatim>\<open>dronebl.py\<close> is a script: its functions print, leave through \<^verbatim>\<open>sys.exit\<close>, raise,
  or return. A call ends in one of three ways, and what it printed or sent before is kept
  in a trace of events.
\<close>

datatype exn =
    ValueError string
  | InvalidLiteral string
  | KeyError string
  | TypeError
  | AttributeError
  | UnboundLocalError string

datatype 'a result = Return 'a | Raise exn | SysExit int

datatype event = Stdout string | HttpsPost string

type_synonym 'a run = "event list \<times> 'a result"

text \<open>Sequencing: the second part runs only when the first one returned.\<close>

definition then_do :: "'a run \<Rightarrow> ('a \<Rightarrow> 'b run) \<Rightarrow> 'b run" where
  "then_do m f =
     (case m of
        (out, Return x) \<Rightarrow> (case f x of (out', r) \<Rightarrow> (out @ out', r))
      | (out, Raise e) \<Rightarrow> (out, Raise e)
      | (out, SysExit n) \<Rightarrow> (out, SysExit n))"

definition print :: "string \<Rightarrow> unit run" where
  "print s = ([Stdout s], Return ())"

definition done_with :: "'a \<Rightarrow> 'a run" where
  "done_with x = ([], Return x)"

definition sys_exit :: "int \<Rightarrow> 'a run" where
  "sys_exit n = ([], SysExit n)"

definition raise :: "exn \<Rightarrow> 'a run" where
  "raise e = ([], Raise e)"

text \<open>
  The status the operating system sees when the script's last statement, the command, ends:
  0 after a normal return, 1 after an uncaught exception (the interpreter prints the
  traceback), the low byte of the argument after \<^verbatim>\<open>sys.exit\<close>.
\<close>

fun process_status :: "'a result \<Rightarrow> int" where
  "process_status (Return _) = 0"
| "process_status (Raise _) = 1"
| "process_status (SysExit n) = n mod 256"

text \<open>
  The values \<^verbatim>\<open>json.load\<close> produces, which are also the values the configuration holds.
  A dict is the list of its items in insertion order. Floats are kept as the real number
  they stand for.
\<close>

datatype pyval =
    PNone
  | PBool bool
  | PInt int
  | PFloat real
  | PStr string
  | PList "pyval list"
  | PDict "(string \<times> pyval) list"

fun truthy :: "pyval \<Rightarrow> bool" where
  "truthy PNone = False"
| "truthy (PBool b) = b"
| "truthy (PInt n) = (n \<noteq> 0)"
| "truthy (PFloat x) = (x \<noteq> 0)"
| "truthy (PStr s) = (s \<noteq> [])"
| "truthy (PList xs) = (xs \<noteq> [])"
| "truthy (PDict kvs) = (kvs \<noteq> [])"

subsection \<open>Decimal text of an integer (\<^verbatim>\<open>str\<close>)\<close>

definition digit_char :: "nat \<Rightarrow> char" where
  "digit_char d = ''0123456789'' ! d"

fun str_nat :: "nat \<Rightarrow> string" where
  "str_nat n = (if n < 10 then [digit_char n] else str_nat (n div 10) @ [digit_char (n mod 10)])"

declare str_nat.simps [simp del]

definition str_int :: "int \<Rightarrow> string" where
  "str_int i = (if i < 0 then CHR ''-'' # str_nat (nat (- i)) else str_nat (nat i))"

subsection \<open>\<^verbatim>\<open>str.ljust\<close>\<close>

definition ljust :: "string \<Rightarrow> nat \<Rightarrow> string" where
  "ljust s w = s @ replicate (w - length s) CHR '' ''"

section \<open>The library the script calls\<close>

text \<open>
  \<^verbatim>\<open>int\<close> on text, the text reader and printer of \<^verbatim>\<open>ipaddress\<close>, and the clock of
  \<^verbatim>\<open>datetime\<close> are not code of this repository. They are taken as parameters:
  \<^item> \<open>py_int s\<close> is the integer \<^verbatim>\<open>int(s)\<close> returns, or \<open>None\<close> where it raises ValueError;
  \<^item> \<open>ip_text s\<close> is what \<^verbatim>\<open>ipaddress\<close> reads in \<open>s\<close>: the address family, the address as
    an integer and the prefix length (the family's maximum where \<open>s\<close> has no \<^verbatim>\<open>/\<close> part),
    or \<open>None\<close> where neither an IPv4 nor an IPv6 network can be read;
  \<^item> \<open>ip_str\<close> is the text of an address (\<^verbatim>\<open>str\<close>);
  \<^item> \<open>isoformat t\<close> is \<^verbatim>\<open>datetime.datetime.fromtimestamp(t).isoformat()\<close>, or the
    exception it raises.
\<close>

datatype family = IPv4 | IPv6

record pylib =
  py_int :: "string \<Rightarrow> int option"
  ip_text :: "string \<Rightarrow> (family \<times> nat \<times> nat) option"
  ip_str :: "family \<Rightarrow> nat \<Rightarrow> string"
  isoformat :: "int \<Rightarrow> exn + string"

subsection \<open>\<^verbatim>\<open>ipaddress\<close>: addresses and networks\<close>

fun max_prefixlen :: "family \<Rightarrow> nat" where
  "max_prefixlen IPv4 = 32"
| "max_prefixlen IPv6 = 128"

record ip_address =
  version :: family
  ip :: nat

record ip_network =
  network_address :: ip_address
  prefixlen :: nat

definition all_ones :: "family \<Rightarrow> nat" where
  "all_ones fam = 2 ^ max_prefixlen fam - 1"

text \<open>\<^verbatim>\<open>_make_netmask\<close>: \<^verbatim>\<open>ALL_ONES ^ (ALL_ONES >> prefixlen)\<close>.\<close>

definition netmask :: "family \<Rightarrow> nat \<Rightarrow> nat" where
  "netmask fam p = all_ones fam XOR drop_bit p (all_ones fam)"

definition hostmask :: "family \<Rightarrow> nat \<Rightarrow> nat" where
  "hostmask fam p = netmask fam p XOR all_ones fam"

text \<open>
  \<^verbatim>\<open>ipaddress.ip_network(val, strict)\<close>: an address with bits set outside the netmask is
  refused when \<open>strict\<close>, and masked otherwise.
\<close>

definition ip_network_of :: "pylib \<Rightarrow> string \<Rightarrow> bool \<Rightarrow> ip_network result" where
  "ip_network_of L val strict =
     (case ip_text L val of
        None \<Rightarrow> Raise (ValueError (val @ '' does not appear to be an IPv4 or IPv6 network''))
      | Some (fam, packed, p) \<Rightarrow>
          if packed AND netmask fam p \<noteq> packed then
            if strict then Raise (ValueError (val @ '' has host bits set''))
            else Return \<lparr>network_address = \<lparr>version = fam, ip = packed AND netmask fam p\<rparr>,
                         prefixlen = p\<rparr>
          else Return \<lparr>network_address = \<lparr>version = fam, ip = packed\<rparr>, prefixlen = p\<rparr>)"

section \<open>Validators\<close>

text \<open>What a validator hands to argparse: \<^verbatim>\<open>None\<close>, an int, an address or a network.\<close>

datatype argval =
    VNone
  | VInt int
  | VAddress ip_address
  | VNetwork ip_network

text \<open>\<^verbatim>\<open>int(val)\<close>, raising as the builtin does.\<close>

definition int_of :: "pylib \<Rightarrow> string \<Rightarrow> int result" where
  "int_of L val = (case py_int L val of None \<Rightarrow> Raise (InvalidLiteral val) | Some i \<Rightarrow> Return i)"

definition checkint :: "pylib \<Rightarrow> string \<Rightarrow> argval" where
  "checkint L val = (case int_of L val of Return i \<Rightarrow> VInt i | _ \<Rightarrow> VNone)"

definition ipaddr :: "pylib \<Rightarrow> string \<Rightarrow> argval" where
  "ipaddr L val =
     (case ip_network_of L val False of
        Return ipn \<Rightarrow>
          (let ipa = network_address ipn
           in if prefixlen ipn = max_prefixlen (version ipa) then VAddress ipa else VNetwork ipn)
      | _ \<Rightarrow> VNone)"

definition idorip :: "pylib \<Rightarrow> string \<Rightarrow> argval result" where
  "idorip L val =
     (let i = checkint L val
      in if i = VNone then
           (let i = ipaddr L val
            in if i = VNone then
                 Raise (ValueError ''value must be either an integer, an IP address or a CIDR address'')
               else Return i)
         else Return i)"

definition portnumber :: "pylib \<Rightarrow> string \<Rightarrow> int result" where
  "portnumber L val =
     (case int_of L val of
        Return port \<Rightarrow>
          if port < 1 then Raise (ValueError ''value must be greater than 0'')
          else if port > 65535 then Raise (ValueError ''value must be less than 65536'')
          else Return port
      | Raise e \<Rightarrow> Raise e
      | SysExit n \<Rightarrow> SysExit n)"

definition listingtype :: "pylib \<Rightarrow> string \<Rightarrow> int result" where
  "listingtype L val =
     (case int_of L val of
        Return type \<Rightarrow>
          if type < 1 then Raise (ValueError ''value must be greater than 0'')
          else if type > 255 then Raise (ValueError ''value must be less than 256'')
          else Return type
      | Raise e \<Rightarrow> Raise e
      | SysExit n \<Rightarrow> SysExit n)"

definition querylimit :: "pylib \<Rightarrow> string \<Rightarrow> int result" where
  "querylimit L val =
     (case int_of L val of
        Return limit \<Rightarrow>
          if limit < 1 then Raise (ValueError ''value must be greater than 0'')
          else if limit > 255 then Raise (ValueError ''value must be less than 1001'')
          else Return limit
      | Raise e \<Rightarrow> Raise e
      | SysExit n \<Rightarrow> SysExit n)"

definition positiveint :: "pylib \<Rightarrow> string \<Rightarrow> int result" where
  "positiveint L val =
     (case int_of L val of
        Return i \<Rightarrow>
          if i < 1 then Raise (ValueError ''value must be greater than 0'')
          else Return i
      | Raise e \<Rightarrow> Raise e
      | SysExit n \<Rightarrow> SysExit n)"

section \<open>Dicts and XML elements\<close>

text \<open>
  A Python dict is the list of its items in insertion order: \<^verbatim>\<open>d[k] = v\<close> is
  \<^const>\<open>AList.update\<close> (the value is replaced in place, a new key goes to the end),
  \<^verbatim>\<open>d[k]\<close> is \<^const>\<open>map_of\<close> with \<open>None\<close> for KeyError.
\<close>

definition has_key :: "('k \<times> 'v) list \<Rightarrow> 'k \<Rightarrow> bool" where
  "has_key d k = (k \<in> set (map fst d))"

text \<open>
  An \<^verbatim>\<open>xml.etree.ElementTree.Element\<close>: tag, attribute dict, text and children. The
  attribute values of a response are strings; those of a request under construction are
  whatever Python value was stored.
\<close>

datatype 'v element =
  Element (tag: string) (attrib: "(string \<times> 'v) list") (text_of: "string option")
    (children: "'v element list")

definition set_attr :: "'v element \<Rightarrow> string \<Rightarrow> 'v \<Rightarrow> 'v element" where
  "set_attr el k v = Element (tag el) (AList.update k v (attrib el)) (text_of el) (children el)"

text \<open>\<^verbatim>\<open>et.SubElement(parent, tag, **extra)\<close> appends a new child and returns nothing here.\<close>

definition SubElement :: "'v element \<Rightarrow> string \<Rightarrow> (string \<times> 'v) list \<Rightarrow> 'v element" where
  "SubElement parent t extra =
     Element (tag parent) (attrib parent) (text_of parent)
       (children parent @ [Element t extra None []])"

text \<open>\<^verbatim>\<open>el.find('./name')\<close>: the first direct child with that tag.\<close>

definition find_child :: "'v element \<Rightarrow> string \<Rightarrow> 'v element option" where
  "find_child el name = List.find (\<lambda>c. tag c = name) (children el)"

section \<open>Configuration\<close>

record config =
  rpckey :: pyval
  staging :: pyval
  debug :: pyval

definition default_config :: config where
  "default_config = \<lparr>rpckey = PNone, staging = PBool False, debug = PBool False\<rparr>"

text \<open>
  What \<^verbatim>\<open>load_config\<close> finds at \<^verbatim>\<open>args.conffile\<close>: no regular file, a file that
  \<^verbatim>\<open>open\<close> or \<^verbatim>\<open>json.load\<close> raises on, or a file \<^verbatim>\<open>json.load\<close> turns into a value.
\<close>

datatype conffile = NoFile | Unreadable | Parsed pyval

definition and_then :: "'a result \<Rightarrow> ('a \<Rightarrow> 'b result) \<Rightarrow> 'b result" where
  "and_then r f = (case r of Return x \<Rightarrow> f x | Raise e \<Rightarrow> Raise e | SysExit n \<Rightarrow> SysExit n)"

text \<open>\<^verbatim>\<open>k in s\<close> on two strings: \<open>k\<close> occurs in \<open>s\<close>.\<close>

fun is_substring :: "string \<Rightarrow> string \<Rightarrow> bool" where
  "is_substring k [] = (k = [])"
| "is_substring k (c # cs) = (prefix k (c # cs) \<or> is_substring k cs)"

text \<open>\<^verbatim>\<open>k in v\<close> for a string \<open>k\<close>.\<close>

fun py_in :: "string \<Rightarrow> pyval \<Rightarrow> bool result" where
  "py_in k (PDict d) = Return (has_key d k)"
| "py_in k (PList xs) = Return (PStr k \<in> set xs)"
| "py_in k (PStr s) = Return (is_substring k s)"
| "py_in k _ = Raise TypeError"

text \<open>\<^verbatim>\<open>v[k]\<close> for a string \<open>k\<close>.\<close>

fun getitem :: "pyval \<Rightarrow> string \<Rightarrow> pyval result" where
  "getitem (PDict d) k = (case map_of d k of None \<Rightarrow> Raise (KeyError k) | Some v \<Rightarrow> Return v)"
| "getitem _ k = Raise TypeError"

definition merge_key :: "string \<Rightarrow> (pyval \<Rightarrow> config \<Rightarrow> config) \<Rightarrow> pyval \<Rightarrow> config \<Rightarrow> config result" where
  "merge_key k store newconfig c =
     and_then (py_in k newconfig) (\<lambda>present.
       if present then and_then (getitem newconfig k) (\<lambda>v. Return (store v c))
       else Return c)"

definition load_config :: "conffile \<Rightarrow> config \<Rightarrow> config result" where
  "load_config file c =
     (case file of
        NoFile \<Rightarrow> Return c
      | Unreadable \<Rightarrow> Return c
      | Parsed newconfig \<Rightarrow>
          if newconfig = PNone then Return c
          else
            and_then (merge_key ''rpckey'' (\<lambda>v c. c\<lparr>rpckey := v\<rparr>) newconfig c) (\<lambda>c.
            and_then (merge_key ''staging'' (\<lambda>v c. c\<lparr>staging := v\<rparr>) newconfig c) (\<lambda>c.
            merge_key ''debug'' (\<lambda>v c. c\<lparr>debug := v\<rparr>) newconfig c)))"

section \<open>Request builder\<close>

definition get_rpcrequest :: "config \<Rightarrow> pyval element" where
  "get_rpcrequest c =
     (let root = Element ''request'' [] None [];
          root = set_attr root ''key'' (rpckey c);
          root = (if truthy (staging c) then set_attr root ''staging'' (PStr ''1'') else root);
          root = (if truthy (debug c) then set_attr root ''debug'' (PStr ''1'') else root)
      in root)"

text \<open>
  \<^verbatim>\<open>req_addmethod\<close>: \<^verbatim>\<open>et.SubElement\<close> does not raise on a string tag with string
  attributes, which is all the script passes, so the handler that prints
  \<^verbatim>\<open>Error adding request method\<close> has no branch here.
\<close>

definition req_addmethod :: "pyval element \<Rightarrow> string \<Rightarrow> (string \<times> pyval) list \<Rightarrow> pyval element" where
  "req_addmethod req method kwargs = SubElement req method kwargs"

text \<open>The attributes of \<^verbatim>\<open>args\<close> that the commands read.\<close>

record args =
  args_idorip :: "argval list"
  args_own :: bool
  args_listed :: "int option"
  args_type :: "int option"
  args_start :: "int option"
  args_stop :: "int option"
  args_limit :: "int option"
  args_ip :: "argval list"
  args_port :: "int option"
  args_comment :: "string option"
  args_id :: "int list"

text \<open>\<^verbatim>\<open>str(item)\<close> for what a validator returned.\<close>

fun str_argval :: "pylib \<Rightarrow> argval \<Rightarrow> string" where
  "str_argval L VNone = ''None''"
| "str_argval L (VInt i) = str_int i"
| "str_argval L (VAddress a) = ip_str L (version a) (ip a)"
| "str_argval L (VNetwork n) =
     ip_str L (version (network_address n)) (ip (network_address n)) @ ''/'' @ str_nat (prefixlen n)"

definition set_opt :: "string \<Rightarrow> string option \<Rightarrow> (string \<times> pyval) list \<Rightarrow> (string \<times> pyval) list" where
  "set_opt k v kwargs = (case v of None \<Rightarrow> kwargs | Some s \<Rightarrow> AList.update k (PStr s) kwargs)"

definition query_kwargs :: "args \<Rightarrow> (string \<times> pyval) list" where
  "query_kwargs a =
     (let kwargs = [];
          kwargs = (if args_own a then AList.update ''own'' (PStr ''1'') kwargs else kwargs);
          kwargs = set_opt ''limit'' (map_option str_int (args_limit a)) kwargs;
          kwargs = set_opt ''listed'' (map_option str_int (args_listed a)) kwargs;
          kwargs = set_opt ''type'' (map_option str_int (args_type a)) kwargs;
          kwargs = set_opt ''start'' (map_option str_int (args_start a)) kwargs;
          kwargs = set_opt ''stop'' (map_option str_int (args_stop a)) kwargs
      in kwargs)"

text \<open>
  The loops of the commands, one \<^verbatim>\<open>req_addmethod\<close> per item. The keyword given by
  name comes first in the attribute dict, the entries of \<^verbatim>\<open>kwargs\<close> after it.
\<close>

fun add_lookups :: "pylib \<Rightarrow> (string \<times> pyval) list \<Rightarrow> pyval element \<Rightarrow> argval list \<Rightarrow> pyval element" where
  "add_lookups L kwargs req [] = req"
| "add_lookups L kwargs req (item # items) =
     add_lookups L kwargs
       (case item of
          VInt i \<Rightarrow> req_addmethod req ''lookup'' ((''id'', PStr (str_argval L item)) # kwargs)
        | _ \<Rightarrow> req_addmethod req ''lookup'' ((''ip'', PStr (str_argval L item)) # kwargs))
       items"

definition query_request :: "pylib \<Rightarrow> config \<Rightarrow> args \<Rightarrow> pyval element" where
  "query_request L c a = add_lookups L (query_kwargs a) (get_rpcrequest c) (args_idorip a)"

definition add_kwargs :: "args \<Rightarrow> (string \<times> pyval) list" where
  "add_kwargs a =
     (let kwargs = [];
          kwargs = set_opt ''type'' (map_option str_int (args_type a)) kwargs;
          kwargs = set_opt ''port'' (map_option str_int (args_port a)) kwargs;
          kwargs = set_opt ''comment'' (args_comment a) kwargs
      in kwargs)"

fun add_adds :: "pylib \<Rightarrow> (string \<times> pyval) list \<Rightarrow> pyval element \<Rightarrow> argval list \<Rightarrow> pyval element" where
  "add_adds L kwargs req [] = req"
| "add_adds L kwargs req (item # items) =
     add_adds L kwargs (req_addmethod req ''add'' ((''ip'', PStr (str_argval L item)) # kwargs)) items"

definition add_request :: "pylib \<Rightarrow> config \<Rightarrow> args \<Rightarrow> pyval element" where
  "add_request L c a = add_adds L (add_kwargs a) (get_rpcrequest c) (args_ip a)"

fun add_by_id :: "string \<Rightarrow> (string \<times> pyval) list \<Rightarrow> pyval element \<Rightarrow> int list \<Rightarrow> pyval element" where
  "add_by_id method kwargs req [] = req"
| "add_by_id method kwargs req (i # ids) =
     add_by_id method kwargs (req_addmethod req method ((''id'', PStr (str_int i)) # kwargs)) ids"

definition remove_request :: "config \<Rightarrow> args \<Rightarrow> pyval element" where
  "remove_request c a = add_by_id ''remove'' [] (get_rpcrequest c) (args_id a)"

definition update_request :: "config \<Rightarrow> args \<Rightarrow> pyval element" where
  "update_request c a =
     add_by_id ''update'' (set_opt ''comment'' (args_comment a) []) (get_rpcrequest c) (args_id a)"

section \<open>Transport and response parser\<close>

text \<open>
  The world outside the script, as far as one invocation meets it:
  \<^item> \<open>tree_write root\<close> is what \<^verbatim>\<open>ElementTree.write\<close> does with the request: the bytes
    (\<open>Inr\<close>), or the text of the exception it raises (\<open>Inl\<close>);
  \<^item> \<open>https body\<close> is the exchange with \<^verbatim>\<open>dronebl.org\<close>, from opening the connection to
    decoding the body read: the decoded text, or the text of the exception raised on the way;
  \<^item> \<open>fromstring text\<close> is \<^verbatim>\<open>et.fromstring\<close>: the root element, or the text of the
    parse error;
  \<^item> \<open>elapsed\<close> is the text of the time the command took.
\<close>

record env =
  tree_write :: "pyval element \<Rightarrow> string + string"
  https :: "string \<Rightarrow> string + string"
  fromstring :: "string \<Rightarrow> string + string element"
  elapsed :: string

definition get_rawxml :: "env \<Rightarrow> pyval element \<Rightarrow> string run" where
  "get_rawxml E rootel =
     (case tree_write E rootel of
        Inr xmlraw \<Rightarrow> done_with xmlraw
      | Inl ex \<Rightarrow>
          then_do (print (''Error generating request body XML: '' @ ex)) (\<lambda>_. sys_exit (- 1)))"

type_synonym row = "(string \<times> string) list"

type_synonym channels = "(string \<times> row list) list"

text \<open>
  The \<^verbatim>\<open>try\<close> statement of \<^verbatim>\<open>send_rpcrequest\<close>. \<^verbatim>\<open>sys.exit\<close> inside
  \<^verbatim>\<open>get_rawxml\<close> is no \<^verbatim>\<open>Exception\<close> and passes the handler. Any exception of the
  exchange or of the XML parser is caught: the handler prints and the function goes on,
  with \<^verbatim>\<open>xmlobj\<close> never assigned (\<open>None\<close> here).
\<close>

definition try_exchange :: "env \<Rightarrow> pyval element \<Rightarrow> (string \<times> string element) option run" where
  "try_exchange E req =
     then_do (get_rawxml E req) (\<lambda>xmlreq.
       case https E xmlreq of
         Inl ex \<Rightarrow>
           ([HttpsPost xmlreq, Stdout (''Error retrieving RPC response: '' @ ex)], Return None)
       | Inr xmlres \<Rightarrow>
           (case fromstring E xmlres of
              Inl ex \<Rightarrow>
                ([HttpsPost xmlreq, Stdout (''Error retrieving RPC response: '' @ ex)], Return None)
            | Inr xmlobj \<Rightarrow> ([HttpsPost xmlreq], Return (Some (xmlres, xmlobj)))))"

text \<open>\<^verbatim>\<open>print(label + value)\<close> where the value may be \<^verbatim>\<open>None\<close>.\<close>

definition print_labelled :: "string \<Rightarrow> string option \<Rightarrow> unit run" where
  "print_labelled label v = (case v of None \<Rightarrow> raise TypeError | Some s \<Rightarrow> print (label @ s))"

definition text_at :: "string element \<Rightarrow> string \<Rightarrow> string option run" where
  "text_at xmlobj name =
     (case find_child xmlobj name of None \<Rightarrow> raise AttributeError | Some el \<Rightarrow> done_with (text_of el))"

text \<open>The loop that groups the children of the response by tag.\<close>

fun group_children :: "channels \<Rightarrow> string element list \<Rightarrow> channels" where
  "group_children ret [] = ret"
| "group_children ret (el # els) =
     (let ret = (if \<not> has_key ret (tag el) then AList.update (tag el) [] ret else ret);
          ret = AList.map_entry (tag el) (\<lambda>l. l @ [attrib el]) ret
      in group_children ret els)"

definition send_rpcrequest :: "env \<Rightarrow> pyval element \<Rightarrow> bool \<Rightarrow> channels run" where
  "send_rpcrequest E req printxmlres =
     then_do (try_exchange E req) (\<lambda>bound.
       case bound of
         None \<Rightarrow> raise (UnboundLocalError ''xmlobj'')
       | Some (xmlres, xmlobj) \<Rightarrow>
           if tag xmlobj \<noteq> ''response'' then
             then_do (print ''Error: invalid XML response received...'') (\<lambda>_. sys_exit (- 1))
           else
             (case map_of (attrib xmlobj) ''type'' of
                None \<Rightarrow>
                  then_do (print ''Error: missing response type attribute...'')
                    (\<lambda>_. sys_exit (- 1))
              | Some type \<Rightarrow>
                 if type \<notin> set [''success'', ''error''] then
                   then_do (print (''Error: Unknown response type received: '' @ type))
                     (\<lambda>_. sys_exit (- 1))
                 else if type = ''error'' then
                   then_do (text_at xmlobj ''code'') (\<lambda>code.
                   then_do (text_at xmlobj ''message'') (\<lambda>message.
                   then_do (text_at xmlobj ''data'') (\<lambda>data.
                   then_do (print ''Error received from RPC server:'') (\<lambda>_.
                   then_do (print []) (\<lambda>_.
                   then_do (print_labelled ''Code:    '' code) (\<lambda>_.
                   then_do (print_labelled ''Message: '' message) (\<lambda>_.
                   then_do (print_labelled ''Data:    '' data) (\<lambda>_.
                   sys_exit (- 1)))))))))
                 else
                   then_do (if printxmlres then print xmlres else done_with ()) (\<lambda>_.
                   done_with (group_children [] (children xmlobj)))))"

section \<open>Presenter\<close>

fun join :: "string \<Rightarrow> string list \<Rightarrow> string" where
  "join sep [] = []"
| "join sep [x] = x"
| "join sep (x # y # ys) = x @ sep @ join sep (y # ys)"

text \<open>
  \<^verbatim>\<open>show_success\<close>, \<^verbatim>\<open>show_warnings\<close> and \<^verbatim>\<open>show_debuginfo\<close> share one body, with
  their own channel and prefix.
\<close>

definition notice_line :: "string \<Rightarrow> row \<Rightarrow> unit run" where
  "notice_line label dbg =
     (case map_of dbg ''data'' of
        None \<Rightarrow> raise (KeyError ''data'')
      | Some msg \<Rightarrow>
          (let params = map (\<lambda>(k, v). k @ ''='' @ v) (filter (\<lambda>(k, v). k \<noteq> ''data'') dbg);
               info = join '', '' params;
               info = (if length info > 0 then '' ('' @ info @ '')'' else info)
           in print (label @ msg @ info)))"

fun notice_lines :: "string \<Rightarrow> row list \<Rightarrow> unit run" where
  "notice_lines label [] = done_with ()"
| "notice_lines label (dbg # rest) = then_do (notice_line label dbg) (\<lambda>_. notice_lines label rest)"

definition show_success :: "channels \<Rightarrow> unit run" where
  "show_success res =
     (case map_of res ''success'' of None \<Rightarrow> done_with () | Some l \<Rightarrow> notice_lines ''Success: '' l)"

definition show_warnings :: "channels \<Rightarrow> unit run" where
  "show_warnings res =
     (case map_of res ''warning'' of None \<Rightarrow> done_with () | Some l \<Rightarrow> notice_lines ''WARNING: '' l)"

definition show_debuginfo :: "config \<Rightarrow> channels \<Rightarrow> unit run" where
  "show_debuginfo c res =
     (if \<not> truthy (debug c) then done_with ()
      else case map_of res ''debug'' of None \<Rightarrow> done_with () | Some l \<Rightarrow> notice_lines ''Debug: '' l)"

subsection \<open>The query table\<close>

text \<open>\<^verbatim>\<open>cols\<close>: for each key, in order, the label and the current width.\<close>

type_synonym cols = "(string \<times> string \<times> nat) list"

definition cols0 :: cols where
  "cols0 = [(''timestamp'', ''Time'', 5), (''id'', ''ID'', 3), (''ip'', ''IP'', 3),
            (''type'', ''Type'', 5), (''listed'', ''Listed'', 7), (''comment'', ''Comment'', 8)]"

definition convert_timestamp :: "pylib \<Rightarrow> row \<Rightarrow> row result" where
  "convert_timestamp L r =
     (case map_of r ''timestamp'' of
        None \<Rightarrow> Return r
      | Some ts \<Rightarrow>
          and_then (int_of L ts) (\<lambda>t.
            case isoformat L t of
              Inl e \<Rightarrow> Raise e
            | Inr isotext \<Rightarrow> Return (AList.update ''timestamp'' isotext r)))"

text \<open>The inner loop over \<^verbatim>\<open>cols\<close> that widens the columns; a key the row lacks is passed over.\<close>

definition widen :: "row \<Rightarrow> cols \<Rightarrow> cols" where
  "widen r cols =
     map (\<lambda>(k, label, w).
            case map_of r k of
              None \<Rightarrow> (k, label, w)
            | Some v \<Rightarrow> if length v > w then (k, label, length v + 1) else (k, label, w))
         cols"

fun scan_rows :: "pylib \<Rightarrow> row list \<Rightarrow> cols \<Rightarrow> row list \<Rightarrow> (cols \<times> row list) result" where
  "scan_rows L [] cols results = Return (cols, results)"
| "scan_rows L (r # rs) cols results =
     and_then (convert_timestamp L r) (\<lambda>r. scan_rows L rs (widen r cols) (results @ [r]))"

fun header :: "cols \<Rightarrow> string \<Rightarrow> string \<Rightarrow> string \<times> string" where
  "header [] headtext headline = (headtext, headline)"
| "header ((k, label, w) # cols) headtext headline =
     (let sep = (if length headtext > 0 then '' '' else [])
      in header cols (headtext @ sep @ ljust label w) (headline @ sep @ replicate w CHR ''=''))"

text \<open>The loop that prints one row: \<^verbatim>\<open>r[k]\<close> is read for every key of \<^verbatim>\<open>cols\<close>.\<close>

fun row_line :: "row \<Rightarrow> cols \<Rightarrow> string \<Rightarrow> string result" where
  "row_line r [] line = Return line"
| "row_line r ((k, label, w) # cols) line =
     (let line = (if length line > 0 then line @ '' '' else line)
      in case map_of r k of
           None \<Rightarrow> Raise (KeyError k)
         | Some v \<Rightarrow> row_line r cols (line @ ljust v w))"

fun print_rows :: "row list \<Rightarrow> cols \<Rightarrow> unit run" where
  "print_rows [] cols = done_with ()"
| "print_rows (r # rs) cols =
     then_do ([], row_line r cols []) (\<lambda>line.
     then_do (print line) (\<lambda>_. print_rows rs cols))"

definition query_table :: "pylib \<Rightarrow> channels \<Rightarrow> row list run" where
  "query_table L res =
     (case map_of res ''result'' of
        None \<Rightarrow> done_with []
      | Some rows \<Rightarrow>
          then_do ([], scan_rows L rows cols0 []) (\<lambda>(cols, results).
          then_do (print (fst (header cols [] []))) (\<lambda>_.
          then_do (print (snd (header cols [] []))) (\<lambda>_.
          then_do (print_rows results cols) (\<lambda>_.
          done_with results)))))"

section \<open>Commands\<close>

definition do_query :: "pylib \<Rightarrow> env \<Rightarrow> config \<Rightarrow> args \<Rightarrow> unit run" where
  "do_query L E c a =
     then_do (send_rpcrequest E (query_request L c a) False) (\<lambda>res.
     then_do (query_table L res) (\<lambda>results.
     then_do (show_warnings res) (\<lambda>_.
     then_do (show_debuginfo c res) (\<lambda>_.
     print (str_nat (length results) @ '' results found in '' @ elapsed E)))))"

definition report :: "env \<Rightarrow> config \<Rightarrow> channels \<Rightarrow> unit run" where
  "report E c res =
     then_do (show_success res) (\<lambda>_.
     then_do (show_warnings res) (\<lambda>_.
     then_do (show_debuginfo c res) (\<lambda>_.
     print (''Completed in '' @ elapsed E))))"

definition do_add :: "pylib \<Rightarrow> env \<Rightarrow> config \<Rightarrow> args \<Rightarrow> unit run" where
  "do_add L E c a = then_do (send_rpcrequest E (add_request L c a) False) (report E c)"

definition do_remove :: "env \<Rightarrow> config \<Rightarrow> args \<Rightarrow> unit run" where
  "do_remove E c a = then_do (send_rpcrequest E (remove_request c a) False) (report E c)"

definition do_update :: "env \<Rightarrow> config \<Rightarrow> args \<Rightarrow> unit run" where
  "do_update E c a = then_do (send_rpcrequest E (update_request c a) False) (report E c)"

section \<open>Argument values\<close>

text \<open>
  What argparse does with a positional of \<^verbatim>\<open>nargs='+'\<close> and a \<^verbatim>\<open>type\<close> function: at
  least one string is required, each is converted in turn, and a conversion that raises
  ValueError or TypeError makes the parser report the argument and leave with status 2.
  Whatever else a conversion raises is not caught.
\<close>

fun convert_each :: "(string \<Rightarrow> 'a result) \<Rightarrow> string list \<Rightarrow> 'a list result" where
  "convert_each ty [] = Return []"
| "convert_each ty (s # ss) =
     (case ty s of
        Return v \<Rightarrow> and_then (convert_each ty ss) (\<lambda>vs. Return (v # vs))
      | Raise (ValueError _) \<Rightarrow> SysExit 2
      | Raise (InvalidLiteral _) \<Rightarrow> SysExit 2
      | Raise TypeError \<Rightarrow> SysExit 2
      | Raise e \<Rightarrow> Raise e
      | SysExit n \<Rightarrow> SysExit n)"

definition one_or_more :: "(string \<Rightarrow> 'a result) \<Rightarrow> string list \<Rightarrow> 'a list result" where
  "one_or_more ty vals = (if vals = [] then SysExit 2 else convert_each ty vals)"

section \<open>The grouping the response parser is to compute\<close>

text \<open>
  The specification of the success branch: every tag that occurs among the children, in
  the order the tags are first seen, with the attribute dicts of the children of that tag
  in document order.
\<close>

fun first_seen :: "'a list \<Rightarrow> 'a list" where
  "first_seen [] = []"
| "first_seen (x # xs) = x # filter (\<lambda>y. y \<noteq> x) (first_seen xs)"

definition attribs_of :: "string element list \<Rightarrow> string \<Rightarrow> row list" where
  "attribs_of els t = map attrib (filter (\<lambda>e. tag e = t) els)"

definition grouped_by_tag :: "string element list \<Rightarrow> channels" where
  "grouped_by_tag els = map (\<lambda>t. (t, attribs_of els t)) (first_seen (map tag els))"

section \<open>Finite libraries and canned servers\<close>

text \<open>
  To run the definitions on examples: a library given by the finite tables of what
  \<^verbatim>\<open>int\<close>, \<^verbatim>\<open>ipaddress\<close> and \<^verbatim>\<open>datetime\<close> do on the texts and numbers of the example
  (\<^verbatim>\<open>int\<close> and \<^verbatim>\<open>ip_network\<close> raise on every other text), and a world in which the
  request serialises to \<open>xmlreq\<close> and the server answers \<open>xmlres\<close>, which parses to
  \<open>xmlobj\<close>.
\<close>

definition table_lib ::
  "(string \<times> int) list \<Rightarrow> (string \<times> family \<times> nat \<times> nat) list \<Rightarrow>
   ((family \<times> nat) \<times> string) list \<Rightarrow> (int \<times> string) list \<Rightarrow> pylib" where
  "table_lib ints nets texts stamps =
     \<lparr>py_int = map_of ints,
      ip_text = map_of nets,
      ip_str = (\<lambda>fam a. case map_of texts (fam, a) of None \<Rightarrow> [] | Some s \<Rightarrow> s),
      isoformat = (\<lambda>t. case map_of stamps t of
                          None \<Rightarrow> Inl (ValueError ''year out of range'')
                        | Some s \<Rightarrow> Inr s)\<rparr>"

definition canned_env :: "string \<Rightarrow> string \<Rightarrow> string element \<Rightarrow> env" where
  "canned_env xmlreq xmlres xmlobj =
     \<lparr>tree_write = (\<lambda>_. Inr xmlreq),
      https = (\<lambda>_. Inr xmlres),
      fromstring = (\<lambda>_. Inr xmlobj),
      elapsed = ''0:00:00.250000''\<rparr>"

text \<open>A world in which the exchange raises an exception with text \<open>ex\<close>.\<close>

definition failing_env :: "string \<Rightarrow> string \<Rightarrow> env" where
  "failing_env xmlreq ex =
     \<lparr>tree_write = (\<lambda>_. Inr xmlreq),
      https = (\<lambda>_. Inl ex),
      fromstring = (\<lambda>_. Inl []),
      elapsed = ''0:00:00.250000''\<rparr>"

section \<open>What a request root has to carry\<close>

text \<open>
  The root is a \<^verbatim>\<open>request\<close> element whose \<^verbatim>\<open>key\<close> attribute is the configured key,
  with \<^verbatim>\<open>staging="1"\<close> exactly when staging is on, \<^verbatim>\<open>debug="1"\<close> exactly when debug is
  on, and no other attribute.
\<close>

definition root_matches :: "config \<Rightarrow> pyval element \<Rightarrow> bool" where
  "root_matches c req =
     (tag req = ''request'' \<and>
      map_of (attrib req) ''key'' = Some (rpckey c) \<and>
      has_key (attrib req) ''staging'' = truthy (staging c) \<and>
      map_of (attrib req) ''staging'' = (if truthy (staging c) then Some (PStr ''1'') else None) \<and>
      has_key (attrib req) ''debug'' = truthy (debug c) \<and>
      map_of (attrib req) ''debug'' = (if truthy (debug c) then Some (PStr ''1'') else None) \<and>
      set (map fst (attrib req)) \<subseteq> {''key'', ''staging'', ''debug''})"

section \<open>Properties of the validators\<close>

lemma all_ones_mask: "all_ones fam = mask (max_prefixlen fam)"
  by (simp add: all_ones_def mask_eq_exp_minus_1)

lemma host_bits_cleared: "(a AND netmask fam p) AND hostmask fam p = 0"
  unfolding netmask_def hostmask_def all_ones_mask
  by (auto simp add: bit_eq_iff bit_and_iff bit_xor_iff bit_drop_bit_eq bit_mask_iff)

lemma full_prefix_keeps_address:
  "a < 2 ^ max_prefixlen fam \<Longrightarrow> a AND netmask fam (max_prefixlen fam) = a"
  unfolding netmask_def all_ones_mask
  by (simp add: drop_bit_mask_eq take_bit_nat_eq_self flip: take_bit_eq_mask)

lemma querylimit_range:
  "py_int L val = Some v \<Longrightarrow> (querylimit L val = Return v) = (1 \<le> v \<and> v \<le> 255)"
  by (simp add: querylimit_def int_of_def)

lemma querylimit_low:
  "py_int L val = Some v \<Longrightarrow> v < 1 \<Longrightarrow>
   querylimit L val = Raise (ValueError ''value must be greater than 0'')"
  by (simp add: querylimit_def int_of_def)

lemma querylimit_high:
  "py_int L val = Some v \<Longrightarrow> 255 < v \<Longrightarrow>
   querylimit L val = Raise (ValueError ''value must be less than 1001'')"
  by (simp add: querylimit_def int_of_def)

text \<open>
  C6. \<^verbatim>\<open>querylimit\<close> returns exactly the integers from 1 to 255 and refuses the others;
  the claim has the refusal above 255 say "value must be less than 256". On the text
  \<^verbatim>\<open>256\<close> the code raises with the message "value must be less than 1001", although 256
  is less than 1001.
\<close>

theorem querylimit_256_message:
  "querylimit (table_lib [(''256'', 256)] [] [] []) ''256'' =
     Raise (ValueError ''value must be less than 1001'')"
  by (simp add: querylimit_def int_of_def table_lib_def)

text \<open>
  C7. \<^verbatim>\<open>idorip\<close> tries the integer first and returns it when \<^verbatim>\<open>int\<close> succeeds, whatever
  the text is as an address; only when \<^verbatim>\<open>int\<close> fails is the text read as an address or
  network, whose value is then returned; when both fail it raises ValueError with the
  message "value must be either an integer, an IP address or a CIDR address".
\<close>

theorem idorip_integer_first:
  "idorip L s =
     (case py_int L s of
        Some n \<Rightarrow> Return (VInt n)
      | None \<Rightarrow>
          (case ip_text L s of
             None \<Rightarrow>
               Raise (ValueError
                 ''value must be either an integer, an IP address or a CIDR address'')
           | Some _ \<Rightarrow> Return (ipaddr L s)))"
  by (auto simp add: idorip_def checkint_def int_of_def ipaddr_def ip_network_of_def Let_def
      split: option.splits)

text \<open>
  C8. On a text that \<^verbatim>\<open>ipaddress\<close> reads as family \<open>fam\<close>, address \<open>a\<close> and prefix length
  \<open>p\<close>, \<^verbatim>\<open>ipaddr\<close> returns the bare network address when \<open>p\<close> is the family's maximum
  prefix length, and the network of prefix length \<open>p\<close> otherwise. In both cases the address
  is \<open>a\<close> with the bits outside the netmask cleared: host bits are zeroed, never refused.
\<close>

theorem ipaddr_host_or_network:
  "ip_text L s = Some (fam, a, p) \<Longrightarrow>
     ipaddr L s =
       (if p = max_prefixlen fam then VAddress \<lparr>version = fam, ip = a AND netmask fam p\<rparr>
        else VNetwork \<lparr>network_address = \<lparr>version = fam, ip = a AND netmask fam p\<rparr>,
                       prefixlen = p\<rparr>)
     \<and> (a AND netmask fam p) AND hostmask fam p = 0"
  by (simp add: ipaddr_def ip_network_of_def host_bits_cleared Let_def)

theorem ipaddr_host_or_network_witness:
  "ipaddr (table_lib [] [(''10.1.2.3/8'', IPv4, 167838211, 8), (''192.0.2.7'', IPv4, 3221225991, 32)] [] [])
       ''10.1.2.3/8'' =
     VNetwork \<lparr>network_address = \<lparr>version = IPv4, ip = 167772160\<rparr>, prefixlen = 8\<rparr>
   \<and> ipaddr (table_lib [] [(''10.1.2.3/8'', IPv4, 167838211, 8), (''192.0.2.7'', IPv4, 3221225991, 32)] [] [])
       ''192.0.2.7'' =
     VAddress \<lparr>version = IPv4, ip = 3221225991\<rparr>"
  using
    ipaddr_host_or_network [of
      "table_lib [] [(''10.1.2.3/8'', IPv4, 167838211, 8), (''192.0.2.7'', IPv4, 3221225991, 32)] [] []"
      "''10.1.2.3/8''" IPv4 167838211 8]
    ipaddr_host_or_network [of
      "table_lib [] [(''10.1.2.3/8'', IPv4, 167838211, 8), (''192.0.2.7'', IPv4, 3221225991, 32)] [] []"
      "''192.0.2.7''" IPv4 3221225991 32]
  by (simp add: table_lib_def netmask_def all_ones_def)

section \<open>Properties of the response parser\<close>

subsection \<open>The grouping loop\<close>

lemma first_seen_filter: "first_seen (filter P xs) = filter P (first_seen xs)"
proof (induction xs)
  case Nil
  show ?case by simp
next
  case (Cons a xs)
  have "\<not> P a \<Longrightarrow> filter P (first_seen xs) = filter (\<lambda>x. P x \<and> x \<noteq> a) (first_seen xs)"
    by (rule filter_cong) auto
  with Cons show ?case by (auto simp: conj_commute)
qed

lemma set_first_seen: "set (first_seen xs) = set xs"
  by (induction xs) auto

lemma map_other_keys:
  "k \<notin> fst ` set d \<Longrightarrow> map (\<lambda>(t, l). (t, if t = k then g l else l)) d = d"
  by (induction d) auto

lemma map_entry_distinct:
  "distinct (map fst d) \<Longrightarrow> AList.map_entry k g d = map (\<lambda>(t, l). (t, if t = k then g l else l)) d"
proof (induction d)
  case Nil
  show ?case by simp
next
  case (Cons p d)
  then show ?case by (cases p) (auto simp: map_other_keys)
qed

lemma update_fresh: "k \<notin> set (map fst d) \<Longrightarrow> AList.update k v d = d @ [(k, v)]"
  by (induction d) auto

lemma map_entry_last: "k \<notin> set (map fst d) \<Longrightarrow> AList.map_entry k g (d @ [(k, v)]) = d @ [(k, g v)]"
  by (induction d) auto

lemma group_children_general:
  "distinct (map fst ret) \<Longrightarrow>
   group_children ret els =
     map (\<lambda>(t, l). (t, l @ attribs_of els t)) ret @
     map (\<lambda>t. (t, attribs_of els t)) (first_seen (filter (\<lambda>t. t \<notin> set (map fst ret)) (map tag els)))"
proof (induction els arbitrary: ret)
  case Nil
  then show ?case by (simp add: attribs_of_def case_prod_beta)
next
  case (Cons el els)
  show ?case
  proof (cases "tag el \<in> set (map fst ret)")
    case True
    let ?ret = "AList.map_entry (tag el) (\<lambda>l. l @ [attrib el]) ret"
    have d: "distinct (map fst ?ret)" using Cons.prems by (rule distinct_map_entry)
    have k: "set (map fst ?ret) = set (map fst ret)" by (simp add: dom_map_entry)
    have "group_children ret (el # els) = group_children ?ret els"
      using True by (simp add: has_key_def)
    also have "\<dots> = map (\<lambda>(t, l). (t, l @ attribs_of els t)) ?ret @
        map (\<lambda>t. (t, attribs_of els t)) (first_seen (filter (\<lambda>t. t \<notin> set (map fst ret)) (map tag els)))"
      using Cons.IH[OF d] k by simp
    also have "map (\<lambda>(t, l). (t, l @ attribs_of els t)) ?ret = map (\<lambda>(t, l). (t, l @ attribs_of (el # els) t)) ret"
      using Cons.prems by (simp add: map_entry_distinct attribs_of_def case_prod_beta)
    also have "map (\<lambda>t. (t, attribs_of els t)) (first_seen (filter (\<lambda>t. t \<notin> set (map fst ret)) (map tag els)))
       = map (\<lambda>t. (t, attribs_of (el # els) t)) (first_seen (filter (\<lambda>t. t \<notin> set (map fst ret)) (map tag (el # els))))"
      using True by (auto simp: attribs_of_def set_first_seen)
    finally show ?thesis .
  next
    case False
    let ?ret = "ret @ [(tag el, [attrib el])]"
    have d: "distinct (map fst ?ret)" using Cons.prems False by simp
    have "group_children ret (el # els) = group_children ?ret els"
      using False by (simp add: has_key_def update_fresh map_entry_last)
    also have "\<dots> = map (\<lambda>(t, l). (t, l @ attribs_of els t)) ?ret @
        map (\<lambda>t. (t, attribs_of els t)) (first_seen (filter (\<lambda>t. t \<notin> set (map fst ?ret)) (map tag els)))"
      using Cons.IH[OF d] by simp
    also have "\<dots> = map (\<lambda>(t, l). (t, l @ attribs_of (el # els) t)) ret @
       map (\<lambda>t. (t, attribs_of (el # els) t)) (first_seen (filter (\<lambda>t. t \<notin> set (map fst ret)) (map tag (el # els))))"
      using False
      by (auto simp: attribs_of_def conj_commute case_prod_beta set_first_seen
          simp flip: first_seen_filter cong: filter_cong)
    finally show ?thesis .
  qed
qed

lemma group_children_grouped: "group_children [] els = grouped_by_tag els"
  using group_children_general[of "[]" els] by (simp add: grouped_by_tag_def)

subsection \<open>Runs\<close>

lemmas run_defs = then_do_def print_def done_with_def sys_exit_def raise_def

lemma then_do_prefix: "\<exists>rest. fst (then_do m f) = fst m @ rest"
  by (simp add: then_do_def split: prod.splits result.splits)

lemma try_exchange_received:
  "tree_write E req = Inr xmlreq \<Longrightarrow> https E xmlreq = Inr xmlres \<Longrightarrow> fromstring E xmlres = Inr xmlobj \<Longrightarrow>
   try_exchange E req = ([HttpsPost xmlreq], Return (Some (xmlres, xmlobj)))"
  by (simp add: try_exchange_def get_rawxml_def run_defs)

lemma try_exchange_posts:
  "tree_write E req = Inr xmlreq \<Longrightarrow> \<exists>rest. fst (try_exchange E req) = HttpsPost xmlreq # rest"
  by (simp add: try_exchange_def get_rawxml_def run_defs split: sum.splits)

lemma send_rpcrequest_posts:
  assumes "tree_write E req = Inr xmlreq"
  shows "\<exists>rest. fst (send_rpcrequest E req p) = HttpsPost xmlreq # rest"
proof -
  obtain r1 where 1: "fst (try_exchange E req) = HttpsPost xmlreq # r1"
    using try_exchange_posts[OF assms] by blast
  obtain r2 where "fst (send_rpcrequest E req p) = fst (try_exchange E req) @ r2"
    unfolding send_rpcrequest_def using then_do_prefix by blast
  with 1 show ?thesis by simp
qed

lemma text_at_found:
  "find_child xmlobj name = Some el \<Longrightarrow> text_at xmlobj name = ([], Return (text_of el))"
  by (simp add: text_at_def run_defs)

text \<open>
  C1. When the request was sent and the answer parses to a document whose root tag is
  \<^verbatim>\<open>response\<close> and whose \<^verbatim>\<open>type\<close> attribute is \<^verbatim>\<open>success\<close>, \<^verbatim>\<open>send_rpcrequest\<close>
  returns the grouping of the root's direct children by tag: one entry per tag, in the
  order the tags are first seen, holding the attribute dicts of the children of that tag
  in document order. Nothing is printed unless \<^verbatim>\<open>printxmlres\<close> is set.
\<close>

theorem send_rpcrequest_success:
  assumes "tree_write E req = Inr xmlreq" and "https E xmlreq = Inr xmlres"
    and "fromstring E xmlres = Inr xmlobj"
    and "tag xmlobj = ''response''" and "map_of (attrib xmlobj) ''type'' = Some ''success''"
  shows "send_rpcrequest E req printxmlres =
           (HttpsPost xmlreq # (if printxmlres then [Stdout xmlres] else []),
            Return (grouped_by_tag (children xmlobj)))"
  using assms(4,5)
  by (simp add: send_rpcrequest_def try_exchange_received[OF assms(1-3)] run_defs group_children_grouped)

theorem send_rpcrequest_success_witness:
  "send_rpcrequest
     (canned_env ''<request/>'' ''<response/>''
        (Element ''response'' [(''type'', ''success'')] None
           [Element ''result'' [(''id'', ''1'')] None [],
            Element ''warning'' [(''data'', ''slow'')] None [],
            Element ''result'' [(''id'', ''2'')] None []]))
     (Element ''request'' [] None []) False =
   ([HttpsPost ''<request/>''],
    Return [(''result'', [[(''id'', ''1'')], [(''id'', ''2'')]]), (''warning'', [[(''data'', ''slow'')]])])"
  using send_rpcrequest_success [of
      "canned_env ''<request/>'' ''<response/>''
        (Element ''response'' [(''type'', ''success'')] None
           [Element ''result'' [(''id'', ''1'')] None [],
            Element ''warning'' [(''data'', ''slow'')] None [],
            Element ''result'' [(''id'', ''2'')] None []])"
      "Element ''request'' [] None []" "''<request/>''" "''<response/>''" _ False]
  by (simp add: canned_env_def grouped_by_tag_def attribs_of_def)

text \<open>
  C2. When the answer parses to a document whose root tag is \<^verbatim>\<open>response\<close>, whose
  \<^verbatim>\<open>type\<close> attribute is \<^verbatim>\<open>error\<close> and which has children \<^verbatim>\<open>code\<close>, \<^verbatim>\<open>message\<close> and
  \<^verbatim>\<open>data\<close> with text, \<^verbatim>\<open>send_rpcrequest\<close> prints the heading, an empty line and the
  three labelled fields and leaves through \<^verbatim>\<open>sys.exit(-1)\<close>: no channels are returned,
  whatever the caller would do next with them is not run, and the process status is not 0.
\<close>

theorem send_rpcrequest_error:
  assumes "tree_write E req = Inr xmlreq" and "https E xmlreq = Inr xmlres"
    and "fromstring E xmlres = Inr xmlobj"
    and "tag xmlobj = ''response''" and "map_of (attrib xmlobj) ''type'' = Some ''error''"
    and "find_child xmlobj ''code'' = Some c" and "text_of c = Some code"
    and "find_child xmlobj ''message'' = Some m" and "text_of m = Some message"
    and "find_child xmlobj ''data'' = Some d" and "text_of d = Some data"
  shows "send_rpcrequest E req printxmlres =
           ([HttpsPost xmlreq,
             Stdout ''Error received from RPC server:'',
             Stdout [],
             Stdout (''Code:    '' @ code),
             Stdout (''Message: '' @ message),
             Stdout (''Data:    '' @ data)],
            SysExit (- 1))
         \<and> then_do (send_rpcrequest E req printxmlres) f =
             (fst (send_rpcrequest E req printxmlres), SysExit (- 1))
         \<and> process_status (snd (send_rpcrequest E req printxmlres)) \<noteq> 0"
  using assms(4,5,7,9,11)
  by (simp add: send_rpcrequest_def try_exchange_received[OF assms(1-3)]
      text_at_found[OF assms(6)] text_at_found[OF assms(8)] text_at_found[OF assms(10)]
      print_labelled_def run_defs)

theorem send_rpcrequest_error_witness:
  "send_rpcrequest
     (canned_env ''<request/>'' ''<response/>''
        (Element ''response'' [(''type'', ''error'')] None
           [Element ''code'' [] (Some ''100'') [],
            Element ''message'' [] (Some ''Bad key'') [],
            Element ''data'' [] (Some ''detail'') []]))
     (Element ''request'' [] None []) False =
   ([HttpsPost ''<request/>'',
     Stdout ''Error received from RPC server:'',
     Stdout [],
     Stdout ''Code:    100'',
     Stdout ''Message: Bad key'',
     Stdout ''Data:    detail''],
    SysExit (- 1))"
proof -
  let ?x = "Element ''response'' [(''type'', ''error'')] None
           [Element ''code'' [] (Some ''100'') [],
            Element ''message'' [] (Some ''Bad key'') [],
            Element ''data'' [] (Some ''detail'') []]"
  let ?E = "canned_env ''<request/>'' ''<response/>'' ?x"
  have "send_rpcrequest ?E (Element ''request'' [] None []) False =
           ([HttpsPost ''<request/>'',
             Stdout ''Error received from RPC server:'',
             Stdout [],
             Stdout (''Code:    '' @ ''100''),
             Stdout (''Message: '' @ ''Bad key''),
             Stdout (''Data:    '' @ ''detail'')],
            SysExit (- 1))"
    by (rule send_rpcrequest_error [of ?E "Element ''request'' [] None []" "''<request/>''"
      "''<response/>''" ?x "Element ''code'' [] (Some ''100'') []" "''100''"
      "Element ''message'' [] (Some ''Bad key'') []" "''Bad key''"
      "Element ''data'' [] (Some ''detail'') []" "''detail''" False, THEN conjunct1])
      (simp_all add: canned_env_def find_child_def)
  then show ?thesis by simp
qed

text \<open>
  C4. When the request serialises and the exchange with the server raises (resolving,
  connecting, TLS, reading, decoding), or the body read is no XML, \<^verbatim>\<open>send_rpcrequest\<close>
  has made one POST and printed one line, \<^verbatim>\<open>Error retrieving RPC response:\<close> with the
  text of the exception; it then ends in an exception of its own, because the handler does
  not leave the function and the next statement reads \<^verbatim>\<open>xmlobj\<close>, which was never bound.
  Nothing catches it: whatever the caller would do next is not run, and the process status
  is not 0.
\<close>

theorem send_rpcrequest_transport_failure:
  assumes "tree_write E req = Inr xmlreq"
    and "https E xmlreq = Inl ex \<or> (\<exists>xmlres. https E xmlreq = Inr xmlres \<and> fromstring E xmlres = Inl ex)"
  shows "send_rpcrequest E req printxmlres =
           ([HttpsPost xmlreq, Stdout (''Error retrieving RPC response: '' @ ex)],
            Raise (UnboundLocalError ''xmlobj''))
         \<and> then_do (send_rpcrequest E req printxmlres) f =
             (fst (send_rpcrequest E req printxmlres), Raise (UnboundLocalError ''xmlobj''))
         \<and> process_status (snd (send_rpcrequest E req printxmlres)) \<noteq> 0"
proof -
  have t: "try_exchange E req =
      ([HttpsPost xmlreq, Stdout (''Error retrieving RPC response: '' @ ex)], Return None)"
    using assms by (auto simp add: try_exchange_def get_rawxml_def run_defs)
  have s: "send_rpcrequest E req printxmlres =
           ([HttpsPost xmlreq, Stdout (''Error retrieving RPC response: '' @ ex)],
            Raise (UnboundLocalError ''xmlobj''))"
    by (simp add: send_rpcrequest_def t run_defs)
  show ?thesis by (simp add: s then_do_def)
qed

theorem send_rpcrequest_transport_failure_witness:
  "do_remove (failing_env ''<request/>'' ''timed out'')
       \<lparr>rpckey = PStr ''k'', staging = PBool False, debug = PBool False\<rparr>
       \<lparr>args_idorip = [], args_own = False, args_listed = None, args_type = None, args_start = None,
        args_stop = None, args_limit = None, args_ip = [], args_port = None, args_comment = None,
        args_id = [7]\<rparr> =
     ([HttpsPost ''<request/>'', Stdout ''Error retrieving RPC response: timed out''],
      Raise (UnboundLocalError ''xmlobj''))"
proof -
  let ?E = "failing_env ''<request/>'' ''timed out''"
  let ?c = "\<lparr>rpckey = PStr ''k'', staging = PBool False, debug = PBool False\<rparr>"
  let ?a = "\<lparr>args_idorip = [], args_own = False, args_listed = None, args_type = None, args_start = None,
        args_stop = None, args_limit = None, args_ip = [], args_port = None, args_comment = None,
        args_id = [7]\<rparr>"
  have w: "tree_write ?E (remove_request ?c ?a) = Inr ''<request/>''"
    by (simp add: failing_env_def)
  have h: "https ?E ''<request/>'' = Inl ''timed out''"
    by (simp add: failing_env_def)
  show ?thesis
    using send_rpcrequest_transport_failure [of ?E "remove_request ?c ?a" "''<request/>''"
        "''timed out''" False "report ?E ?c", OF w disjI1, OF h]
    by (simp add: do_remove_def then_do_def)
qed

section \<open>Properties of the request builder\<close>

lemma attrib_get_rpcrequest:
  "attrib (get_rpcrequest c) =
     (''key'', rpckey c) #
     (if truthy (staging c) then [(''staging'', PStr ''1'')] else []) @
     (if truthy (debug c) then [(''debug'', PStr ''1'')] else [])"
  by (simp add: get_rpcrequest_def set_attr_def Let_def)

lemma children_get_rpcrequest: "children (get_rpcrequest c) = []"
  by (simp add: get_rpcrequest_def set_attr_def Let_def)

lemma tag_get_rpcrequest: "tag (get_rpcrequest c) = ''request''"
  by (simp add: get_rpcrequest_def set_attr_def Let_def)

lemma add_lookups_shape:
  "attrib (add_lookups L kw req items) = attrib req \<and>
   tag (add_lookups L kw req items) = tag req \<and>
   map tag (children (add_lookups L kw req items)) =
     map tag (children req) @ replicate (length items) ''lookup''"
proof (induction items arbitrary: req)
  case Nil
  show ?case by simp
next
  case (Cons item items)
  show ?case
    by (cases item)
       (simp_all add: Cons.IH req_addmethod_def SubElement_def replicate_app_Cons_same)
qed

lemma add_adds_shape:
  "attrib (add_adds L kw req items) = attrib req \<and>
   tag (add_adds L kw req items) = tag req \<and>
   children (add_adds L kw req items) =
     children req @ map (\<lambda>item. Element ''add'' ((''ip'', PStr (str_argval L item)) # kw) None []) items"
  by (induction items arbitrary: req) (simp_all add: req_addmethod_def SubElement_def)

lemma add_by_id_shape:
  "attrib (add_by_id method kw req ids) = attrib req \<and>
   tag (add_by_id method kw req ids) = tag req \<and>
   children (add_by_id method kw req ids) =
     children req @ map (\<lambda>i. Element method ((''id'', PStr (str_int i)) # kw) None []) ids"
  by (induction ids arbitrary: req) (simp_all add: req_addmethod_def SubElement_def)

lemma root_matches_get:
  "attrib req = attrib (get_rpcrequest c) \<Longrightarrow> tag req = ''request'' \<Longrightarrow> root_matches c req"
  by (auto simp add: root_matches_def attrib_get_rpcrequest has_key_def)

text \<open>
  C3. For every configuration and every argument namespace, the request each command
  builds has a root that carries the configured key as \<^verbatim>\<open>key\<close>, the staging marker exactly
  when staging is on and the debug marker exactly when debug is on, and has one method
  element per item given: \<^verbatim>\<open>lookup\<close> per id or address of \<^verbatim>\<open>query\<close>, \<^verbatim>\<open>add\<close> per address
  of \<^verbatim>\<open>add\<close>, \<^verbatim>\<open>remove\<close> and \<^verbatim>\<open>update\<close> per id.
\<close>

theorem request_root_and_methods:
  "root_matches c (query_request L c a) \<and>
   map tag (children (query_request L c a)) = replicate (length (args_idorip a)) ''lookup'' \<and>
   root_matches c (add_request L c a) \<and>
   map tag (children (add_request L c a)) = replicate (length (args_ip a)) ''add'' \<and>
   root_matches c (remove_request c a) \<and>
   map tag (children (remove_request c a)) = replicate (length (args_id a)) ''remove'' \<and>
   root_matches c (update_request c a) \<and>
   map tag (children (update_request c a)) = replicate (length (args_id a)) ''update''"
  by (simp add: query_request_def add_request_def remove_request_def update_request_def
      add_lookups_shape add_adds_shape add_by_id_shape root_matches_get
      children_get_rpcrequest tag_get_rpcrequest comp_def map_replicate_const)

lemma convert_each_total: "convert_each (\<lambda>v. Return (g v)) vals = Return (map g vals)"
  by (induction vals) (simp_all add: and_then_def)

text \<open>
  C10. On a text that \<^verbatim>\<open>ipaddress\<close> reads neither as an address nor as a network,
  \<^verbatim>\<open>ipaddr\<close> returns \<^verbatim>\<open>None\<close> and raises nothing, so argparse accepts the arguments of
  \<^verbatim>\<open>add\<close>; the request \<^verbatim>\<open>do_add\<close> builds has, at the position of that text, an \<^verbatim>\<open>add\<close>
  element whose \<^verbatim>\<open>ip\<close> attribute is the string \<^verbatim>\<open>None\<close>, and the request is posted.
\<close>

theorem ipaddr_none_reaches_request:
  assumes "ip_text L (vals ! i) = None" and "i < length vals"
    and "tree_write E (add_request L c (a\<lparr>args_ip := map (ipaddr L) vals\<rparr>)) = Inr xmlreq"
  shows "ipaddr L (vals ! i) = VNone
       \<and> one_or_more (\<lambda>v. Return (ipaddr L v)) vals = Return (map (ipaddr L) vals)
       \<and> children (add_request L c (a\<lparr>args_ip := map (ipaddr L) vals\<rparr>)) ! i =
           Element ''add'' ((''ip'', PStr ''None'') # add_kwargs a) None []
       \<and> (\<exists>rest. fst (do_add L E c (a\<lparr>args_ip := map (ipaddr L) vals\<rparr>)) = HttpsPost xmlreq # rest)"
proof -
  have n: "ipaddr L (vals ! i) = VNone"
    using assms(1) by (simp add: ipaddr_def ip_network_of_def)
  have o: "one_or_more (\<lambda>v. Return (ipaddr L v)) vals = Return (map (ipaddr L) vals)"
    using assms(2) by (auto simp add: one_or_more_def convert_each_total)
  have k: "add_kwargs (a\<lparr>args_ip := map (ipaddr L) vals\<rparr>) = add_kwargs a"
    by (simp add: add_kwargs_def)
  have ch: "children (add_request L c (a\<lparr>args_ip := map (ipaddr L) vals\<rparr>)) ! i =
           Element ''add'' ((''ip'', PStr ''None'') # add_kwargs a) None []"
    using assms(2) n by (simp add: add_request_def add_adds_shape children_get_rpcrequest k)
  obtain r1 where "fst (send_rpcrequest E (add_request L c (a\<lparr>args_ip := map (ipaddr L) vals\<rparr>)) False)
      = HttpsPost xmlreq # r1"
    using send_rpcrequest_posts[OF assms(3)] by blast
  moreover obtain r2 where "fst (do_add L E c (a\<lparr>args_ip := map (ipaddr L) vals\<rparr>)) =
      fst (send_rpcrequest E (add_request L c (a\<lparr>args_ip := map (ipaddr L) vals\<rparr>)) False) @ r2"
    unfolding do_add_def using then_do_prefix by blast
  ultimately have p: "\<exists>rest. fst (do_add L E c (a\<lparr>args_ip := map (ipaddr L) vals\<rparr>)) = HttpsPost xmlreq # rest"
    by simp
  show ?thesis using n o ch p by blast
qed

theorem ipaddr_none_reaches_request_witness:
  "ipaddr (table_lib [] [] [] []) ''not-an-ip'' = VNone
   \<and> children (add_request (table_lib [] [] [] [])
         \<lparr>rpckey = PStr ''k'', staging = PBool False, debug = PBool False\<rparr>
         \<lparr>args_idorip = [], args_own = False, args_listed = None, args_type = Some 3,
          args_start = None, args_stop = None, args_limit = None,
          args_ip = map (ipaddr (table_lib [] [] [] [])) [''not-an-ip''],
          args_port = None, args_comment = None, args_id = []\<rparr>) ! 0 =
       Element ''add'' [(''ip'', PStr ''None''), (''type'', PStr ''3'')] None []"
proof -
  let ?L = "table_lib [] [] [] []"
  let ?c = "\<lparr>rpckey = PStr ''k'', staging = PBool False, debug = PBool False\<rparr>"
  let ?a = "\<lparr>args_idorip = [], args_own = False, args_listed = None, args_type = Some 3,
          args_start = None, args_stop = None, args_limit = None, args_ip = [],
          args_port = None, args_comment = None, args_id = []\<rparr>"
  let ?E = "canned_env ''<request/>'' ''<response/>'' (Element ''response'' [] None [])"
  have 1: "ip_text ?L ([''not-an-ip''] ! 0) = None" by (simp add: table_lib_def)
  have 2: "(0::nat) < length [''not-an-ip'']" by simp
  have 3: "tree_write ?E (add_request ?L ?c (?a\<lparr>args_ip := map (ipaddr ?L) [''not-an-ip'']\<rparr>)) = Inr ''<request/>''"
    by (simp add: canned_env_def)
  have k: "add_kwargs ?a = [(''type'', PStr ''3'')]"
    by (simp add: add_kwargs_def set_opt_def str_int_def str_nat.simps digit_char_def)
  show ?thesis
    using ipaddr_none_reaches_request [OF 1 2 3]
    by (simp add: k ipaddr_def ip_network_of_def table_lib_def)
qed

section \<open>Properties of the configuration loader\<close>

lemma merge_key_dict:
  "merge_key k store (PDict d) c = Return (case map_of d k of None \<Rightarrow> c | Some v \<Rightarrow> store v c)"
proof (cases "map_of d k")
  case None
  then have "\<not> has_key d k" by (simp add: has_key_def map_of_eq_None_iff)
  with None show ?thesis by (simp add: merge_key_def and_then_def)
next
  case (Some v)
  then have "has_key d k" by (auto simp add: has_key_def dest: map_of_SomeD intro: rev_image_eqI)
  with Some show ?thesis by (simp add: merge_key_def and_then_def)
qed

lemma load_config_dict:
  "load_config (Parsed (PDict d)) c =
     Return \<lparr>rpckey = (case map_of d ''rpckey'' of None \<Rightarrow> rpckey c | Some v \<Rightarrow> v),
             staging = (case map_of d ''staging'' of None \<Rightarrow> staging c | Some v \<Rightarrow> v),
             debug = (case map_of d ''debug'' of None \<Rightarrow> debug c | Some v \<Rightarrow> v)\<rparr>"
  by (simp add: load_config_def merge_key_dict and_then_def split: option.splits)

lemma load_config_absent: "load_config NoFile c = Return c \<and> load_config Unreadable c = Return c"
  by (simp add: load_config_def)

text \<open>
  C9. Without a file, and with a file that cannot be opened or parsed, \<^verbatim>\<open>load_config\<close>
  leaves the defaults; with a file that holds a JSON object the three recognised keys are
  merged and every other key is ignored (the lemmas above). A file that parses to something
  else is not covered by the handler around \<^verbatim>\<open>json.load\<close>: on the file \<^verbatim>\<open>5\<close> the
  membership test \<^verbatim>\<open>'rpckey' in newconfig\<close> raises TypeError and the script ends there.
\<close>

theorem load_config_number: "load_config (Parsed (PInt 5)) default_config = Raise TypeError"
  by (simp add: load_config_def merge_key_def and_then_def)

section \<open>Properties of the query table\<close>

text \<open>The loop that widens the columns leaves the column of a key the row lacks as it is.\<close>

lemma widen_absent_key:
  "map_of r k = None \<Longrightarrow> (k, label, w) \<in> set cols \<Longrightarrow> (k, label, w) \<in> set (widen r cols)"
  by (force simp add: widen_def)

text \<open>The loop that prints a row raises KeyError as soon as the row lacks a key of a column.\<close>

lemma row_line_missing:
  "k \<in> set (map fst cols) \<Longrightarrow> map_of r k = None \<Longrightarrow>
   \<exists>k'. row_line r cols line = Raise (KeyError k')"
proof (induction cols arbitrary: line)
  case Nil
  then show ?case by simp
next
  case (Cons c cols)
  obtain k0 label w where c: "c = (k0, label, w)" by (cases c)
  show ?case
  proof (cases "map_of r k0")
    case None
    then show ?thesis by (simp add: c Let_def)
  next
    case (Some v)
    with Cons.prems have "k \<in> set (map fst cols)" by (auto simp: c)
    from Cons.IH[OF this Cons.prems(2)] Some show ?thesis by (simp add: c Let_def)
  qed
qed

lemma query_table_row_without_comment:
  "query_table
     (table_lib [(''1700000000'', 1700000000)] [] []
        [(1700000000, ''2023-11-14T22:13:20'')])
     [(''result'', [[(''ip'', ''192.0.2.1''), (''id'', ''7''), (''type'', ''3''),
              (''listed'', ''1''), (''timestamp'', ''1700000000'')]])] =
   ([Stdout ''Time                 ID  IP         Type  Listed  Comment '',
     Stdout ''==================== === ========== ===== ======= ========''],
    Raise (KeyError ''comment''))"
  by code_simp

text \<open>
  C5. The claim has a row that lacks a column key rendered with that column passed over,
  and the rendering complete for every row. The loop that computes the widths does pass
  over such a key; the loop that prints the rows reads \<^verbatim>\<open>r[k]\<close> for every column. On a
  response with one \<^verbatim>\<open>result\<close> row that has no \<^verbatim>\<open>comment\<close>, \<^verbatim>\<open>do_query\<close> prints the two
  header lines and ends in KeyError: the row, the warnings and the summary line are not
  printed.
\<close>

theorem do_query_row_without_comment:
  "do_query
     (table_lib [(''1700000000'', 1700000000)] [] []
        [(1700000000, ''2023-11-14T22:13:20'')])
     (canned_env ''<request/>'' ''<response/>''
        (Element ''response'' [(''type'', ''success'')] None
           [Element ''result''
              [(''ip'', ''192.0.2.1''), (''id'', ''7''), (''type'', ''3''), (''listed'', ''1''),
               (''timestamp'', ''1700000000'')] None []]))
     \<lparr>rpckey = PStr ''k'', staging = PBool False, debug = PBool False\<rparr>
     \<lparr>args_idorip = [VInt 7], args_own = False,
      args_listed = None, args_type = None, args_start = None, args_stop = None,
      args_limit = None, args_ip = [], args_port = None, args_comment = None, args_id = []\<rparr> =
   ([HttpsPost ''<request/>'',
     Stdout ''Time                 ID  IP         Type  Listed  Comment '',
     Stdout ''==================== === ========== ===== ======= ========''],
    Raise (KeyError ''comment''))"
proof -
  let ?E = "canned_env ''<request/>'' ''<response/>''
        (Element ''response'' [(''type'', ''success'')] None
           [Element ''result''
              [(''ip'', ''192.0.2.1''), (''id'', ''7''), (''type'', ''3''), (''listed'', ''1''),
               (''timestamp'', ''1700000000'')] None []])"
  have s: "send_rpcrequest ?E req False =
      ([HttpsPost ''<request/>''],
       Return [(''result'', [[(''ip'', ''192.0.2.1''), (''id'', ''7''), (''type'', ''3''),
              (''listed'', ''1''), (''timestamp'', ''1700000000'')]])])" for req
    by (simp add: send_rpcrequest_def try_exchange_def get_rawxml_def canned_env_def run_defs
        has_key_def)
  show ?thesis
    by (simp add: do_query_def s query_table_row_without_comment then_do_def)
qed

end
